theory Spec2Isabelle
  imports Main
begin

section \<open>Python values used by dataloader.py\<close>

text \<open>
  The exceptions that the module can raise. \<open>ValueError\<close> is the spec's
  ConfigurationError, \<open>RuntimeError\<close> with the "not found" message its NotFoundError.
  \<open>OSError\<close> is what \<open>Path.exists\<close> lets through; \<open>IsADirectoryError\<close>,
  \<open>FileNotFoundError\<close> and \<open>UnpicklingError\<close> come from \<open>torch.load\<close>.
\<close>

datatype error =
    ValueError
  | RuntimeError string
  | IndexError
  | AttributeError string
  | TypeError string
  | OSError
  | IsADirectoryError
  | FileNotFoundError
  | UnpicklingError
  | SystemExit int

subsection \<open>Formatting integers\<close>

definition digit_char :: "nat \<Rightarrow> char" where
  "digit_char d = ''0123456789'' ! d"

fun digits :: "nat \<Rightarrow> string" where
  "digits n = (if n < 10 then [digit_char n] else digits (n div 10) @ [digit_char (n mod 10)])"

declare digits.simps [simp del]

text \<open>\<open>str(i)\<close> and \<open>f"{i}"\<close> for a Python int.\<close>

definition str_int :: "int \<Rightarrow> string" where
  "str_int i = (if i < 0 then CHR ''-'' # digits (nat (- i)) else digits (nat i))"

text \<open>\<open>f"{idx:03}"\<close> for an index produced by \<open>enumerate\<close> (never negative): at least
  three characters, padded with zeros on the left.\<close>

definition format_03 :: "nat \<Rightarrow> string" where
  "format_03 idx = replicate (3 - length (digits idx)) CHR ''0'' @ digits idx"

subsection \<open>pathlib paths\<close>

text \<open>
  A \<open>pathlib.Path\<close> on a POSIX system: the root (\<open>''''\<close>, \<open>''/''\<close> or \<open>''//''\<close>) and the
  components. \<open>Path s\<close> parses a string: empty components and \<open>.\<close> are dropped, \<open>~\<close> and
  \<open>..\<close> are kept as they are. \<open>truediv\<close> is the operator \<open>/\<close>: a right operand with a
  root replaces the left one, any other is appended component by component.
\<close>

datatype path = PurePath (anchor: string) (comps: "string list")

fun split_slash :: "string \<Rightarrow> string list" where
  "split_slash [] = [[]]"
| "split_slash (c # cs) =
     (if c = CHR ''/'' then [] # split_slash cs
      else (case split_slash cs of [] \<Rightarrow> [[c]] | w # ws \<Rightarrow> (c # w) # ws))"

definition parse_anchor :: "string \<Rightarrow> string" where
  "parse_anchor s =
     (if take 2 s = ''//'' \<and> take 3 s \<noteq> ''///'' then ''//''
      else if take 1 s = ''/'' then ''/''
      else [])"

definition Path :: "string \<Rightarrow> path" where
  "Path s = PurePath (parse_anchor s) (filter (\<lambda>c. c \<noteq> [] \<and> c \<noteq> ''.'') (split_slash s))"

definition truediv :: "path \<Rightarrow> string \<Rightarrow> path" where
  "truediv p s =
     (let q = Path s
      in if anchor q \<noteq> [] then q else PurePath (anchor p) (comps p @ comps q))"

fun join_slash :: "string list \<Rightarrow> string" where
  "join_slash [] = []"
| "join_slash [c] = c"
| "join_slash (c # cs) = c @ ''/'' @ join_slash cs"

definition path_str :: "path \<Rightarrow> string" where
  "path_str p = (if anchor p = [] \<and> comps p = [] then ''.'' else anchor p @ join_slash (comps p))"

subsection \<open>Tensors and attribute values\<close>

text \<open>
  A tensor (and the numpy array it is made from: \<open>from_numpy\<close> changes the representation
  only) is a number when it has no dimension, and a sequence of tensors along its first
  dimension otherwise.
\<close>

datatype tensor = Scalar int | Tensor "tensor list"

text \<open>\<open>len(t)\<close>: a tensor without dimension has no length.\<close>

fun tensor_len :: "tensor \<Rightarrow> error + int" where
  "tensor_len (Scalar n) = Inl (TypeError ''len() of a 0-d tensor'')"
| "tensor_len (Tensor ts) = Inr (int (length ts))"

text \<open>
  \<open>t[idx]\<close> for an integer index. The index is first unpacked into a signed 64-bit
  integer: a Python int outside that range raises RuntimeError ("Overflow when
  unpacking long"), whatever the tensor. Then a negative index counts from the end, an
  index outside \<open>-len(t) .. len(t) - 1\<close> raises IndexError, as does any index into a
  tensor without dimension.
\<close>

definition fits_int64 :: "int \<Rightarrow> bool" where
  "fits_int64 idx = (- (2 ^ 63) \<le> idx \<and> idx < 2 ^ 63)"

fun tensor_select :: "tensor \<Rightarrow> int \<Rightarrow> error + tensor" where
  "tensor_select (Scalar n) idx = Inl IndexError"
| "tensor_select (Tensor ts) idx =
     (let n = int (length ts); j = (if idx < 0 then n + idx else idx)
      in if 0 \<le> j \<and> j < n then Inr (ts ! nat j) else Inl IndexError)"

definition tensor_getitem :: "tensor \<Rightarrow> int \<Rightarrow> error + tensor" where
  "tensor_getitem t idx =
     (if \<not> fits_int64 idx then Inl (RuntimeError ''Overflow when unpacking long'')
      else tensor_select t idx)"

text \<open>\<open>bool(t)\<close>: defined for a tensor holding exactly one number.\<close>

fun tensor_bool :: "tensor \<Rightarrow> error + bool" where
  "tensor_bool (Scalar n) = Inr (n \<noteq> 0)"
| "tensor_bool (Tensor [t]) = tensor_bool t"
| "tensor_bool (Tensor ts) = Inl (RuntimeError ''Boolean value of Tensor is ambiguous'')"

type_synonym callable = "tensor \<Rightarrow> error + tensor"

datatype pyvalue =
    NoneV
  | IntV int
  | PathV path
  | TensorV tensor
  | CallableV callable

text \<open>An instance is its attribute dictionary; reading an attribute that was never
  assigned raises AttributeError (neither the class nor \<open>Dataset\<close> defines \<open>transform\<close>,
  \<open>trasform\<close>, \<open>X\<close> or \<open>Y\<close>).\<close>

type_synonym pyobject = "string \<rightharpoonup> pyvalue"

definition getattr :: "pyobject \<Rightarrow> string \<Rightarrow> error + pyvalue" where
  "getattr self name = (case self name of None \<Rightarrow> Inl (AttributeError name) | Some v \<Rightarrow> Inr v)"

fun py_len :: "pyvalue \<Rightarrow> error + int" where
  "py_len (TensorV t) = tensor_len t"
| "py_len v = Inl (TypeError ''object has no len()'')"

fun py_subscript :: "pyvalue \<Rightarrow> int \<Rightarrow> error + tensor" where
  "py_subscript (TensorV t) idx = tensor_getitem t idx"
| "py_subscript v idx = Inl (TypeError ''object is not subscriptable'')"

fun py_bool :: "pyvalue \<Rightarrow> error + bool" where
  "py_bool NoneV = Inr False"
| "py_bool (IntV i) = Inr (i \<noteq> 0)"
| "py_bool (PathV p) = Inr True"
| "py_bool (TensorV t) = tensor_bool t"
| "py_bool (CallableV f) = Inr True"

fun py_call :: "pyvalue \<Rightarrow> tensor \<Rightarrow> error + tensor" where
  "py_call (CallableV f) x = f x"
| "py_call v x = Inl (TypeError ''object is not callable'')"

subsection \<open>The file system seen by the dataset\<close>

text \<open>
  What is stored under a path: a directory; a partition file (the pair of arrays that
  \<open>save\<close> wrote); a file that \<open>torch.load\<close> cannot read, because its archive is damaged
  or because it is no pickle at all; a file holding another object, a sequence of \<open>n\<close>
  objects that are not arrays or an object that cannot be unpacked.

  The file system is what \<open>stat\<close> finds under each path, and the paths whose \<open>stat\<close>
  fails with an error that \<open>Path.exists\<close> does not turn into \<open>False\<close> (a name too long,
  a directory that may not be searched); something may or may not be stored under such
  a path.
\<close>

datatype node =
    Directory
  | PartitionFile tensor tensor
  | DamagedFile
  | NotAPickle
  | StoredSequence nat
  | StoredNonIterable

record filesystem =
  contents :: "path \<rightharpoonup> node"
  stat_fails :: "path \<Rightarrow> bool"

datatype fs_access = Exists path | Load path

text \<open>\<open>Path.exists()\<close>: whether something is stored under the path, unless \<open>stat\<close>
  fails; then the OSError is raised.\<close>

definition exists :: "filesystem \<Rightarrow> path \<Rightarrow> error + bool" where
  "exists fs p = (if stat_fails fs p then Inl OSError else Inr (contents fs p \<noteq> None))"

text \<open>
  \<open>self.X, self.Y = load(path)\<close> followed by the two \<open>from_numpy\<close>: \<open>load\<close> raises on
  a directory, a damaged archive and a file that is no pickle; the unpacking raises
  ValueError on a sequence that has not two elements and TypeError on an object that is
  not iterable; \<open>from_numpy\<close> raises TypeError on what is not an array.
\<close>

definition load :: "filesystem \<Rightarrow> path \<Rightarrow> error + (tensor \<times> tensor)" where
  "load fs p =
     (case contents fs p of
        None \<Rightarrow> Inl FileNotFoundError
      | Some Directory \<Rightarrow> Inl IsADirectoryError
      | Some DamagedFile \<Rightarrow> Inl (RuntimeError ''PytorchStreamReader failed reading zip archive'')
      | Some NotAPickle \<Rightarrow> Inl UnpicklingError
      | Some (StoredSequence n) \<Rightarrow>
          (if n = 2 then Inl (TypeError ''expected np.ndarray'') else Inl ValueError)
      | Some StoredNonIterable \<Rightarrow> Inl (TypeError ''cannot unpack non-iterable object'')
      | Some (PartitionFile X Y) \<Rightarrow> Inr (X, Y))"

section \<open>CIFAR\_PartitionedDataset\<close>

definition DATA_ROOT :: string where
  "DATA_ROOT = ''~/.flower/data/cifar''"

definition partition_file_name :: "int \<Rightarrow> int \<Rightarrow> string" where
  "partition_file_name num_classes partition_id =
     ''cifar'' @ str_int num_classes @ ''_'' @ str_int partition_id @ ''.pt''"

definition not_found_message :: "path \<Rightarrow> string" where
  "not_found_message p = ''Partition file '' @ path_str p @ '' not found.''"

text \<open>
  The body of \<open>__init__\<close>, with its four parameters bound. It returns the accesses to
  the file system in the order they are made, and the error raised or the instance
  with the attributes assigned. The parameter \<open>transform\<close> is never stored.
\<close>

definition CIFAR_PartitionedDataset_init ::
  "filesystem \<Rightarrow> int \<Rightarrow> string \<Rightarrow> int \<Rightarrow> callable option \<Rightarrow> fs_access list \<times> (error + pyobject)" where
  "CIFAR_PartitionedDataset_init fs num_classes root_dir partition_id transform =
     (if num_classes \<notin> set [10, 100] then ([], Inl ValueError)
      else
        let self0 = Map.empty(''root_dir'' \<mapsto> PathV (Path root_dir));
            self1 = self0(''partition_id'' \<mapsto> IntV partition_id);
            partition_path = truediv (Path root_dir) (partition_file_name num_classes partition_id);
            self2 = self1(''partition_path'' \<mapsto> PathV partition_path)
        in (case exists fs partition_path of
              Inl e \<Rightarrow> ([Exists partition_path], Inl e)
            | Inr found \<Rightarrow>
                if \<not> found
                then ([Exists partition_path],
                      Inl (RuntimeError (not_found_message partition_path)))
                else (case load fs partition_path of
                        Inl e \<Rightarrow> ([Exists partition_path, Load partition_path], Inl e)
                      | Inr (X, Y) \<Rightarrow>
                          ([Exists partition_path, Load partition_path],
                           Inr (self2(''X'' \<mapsto> TensorV X, ''Y'' \<mapsto> TensorV Y))))))"

text \<open>\<open>__len__\<close>: \<open>len(self.X)\<close>.\<close>

definition dunder_len :: "pyobject \<Rightarrow> error + int" where
  "dunder_len self = (case getattr self ''X'' of Inl e \<Rightarrow> Inl e | Inr xv \<Rightarrow> py_len xv)"

text \<open>\<open>__getitem__\<close>: both element reads come first, then the read of \<open>self.transform\<close>,
  then (when it is true) the call of \<open>self.trasform\<close>.\<close>

definition dunder_getitem :: "pyobject \<Rightarrow> int \<Rightarrow> error + (tensor \<times> tensor)" where
  "dunder_getitem self idx =
     (case getattr self ''X'' of Inl e \<Rightarrow> Inl e | Inr xv \<Rightarrow>
     (case py_subscript xv idx of Inl e \<Rightarrow> Inl e | Inr x \<Rightarrow>
     (case getattr self ''Y'' of Inl e \<Rightarrow> Inl e | Inr yv \<Rightarrow>
     (case py_subscript yv idx of Inl e \<Rightarrow> Inl e | Inr y \<Rightarrow>
     (case getattr self ''transform'' of Inl e \<Rightarrow> Inl e | Inr t \<Rightarrow>
     (case py_bool t of Inl e \<Rightarrow> Inl e | Inr b \<Rightarrow>
        if b
        then (case getattr self ''trasform'' of Inl e \<Rightarrow> Inl e | Inr f \<Rightarrow>
             (case py_call f x of Inl e \<Rightarrow> Inl e | Inr x' \<Rightarrow> Inr (x', y)))
        else Inr (x, y)))))))"

text \<open>When \<open>t[idx]\<close> is an element of \<open>t\<close>.\<close>

fun index_in_range :: "tensor \<Rightarrow> int \<Rightarrow> bool" where
  "index_in_range (Scalar n) idx = False"
| "index_in_range (Tensor ts) idx = (- int (length ts) \<le> idx \<and> idx < int (length ts))"

subsection \<open>Calling the constructors with keyword arguments\<close>

text \<open>
  All parameters are keyword-only. A field is \<open>None\<close> when the caller does not pass the
  keyword. \<open>num_classes\<close> and \<open>root_dir\<close> have defaults; \<open>partition_id\<close> and \<open>transform\<close>
  have none, and a call without them raises TypeError before the body runs.
\<close>

record kwargs =
  kw_num_classes :: "int option"
  kw_root_dir :: "string option"
  kw_partition_id :: "int option"
  kw_transform :: "callable option option"

definition CIFAR_PartitionedDataset ::
  "filesystem \<Rightarrow> kwargs \<Rightarrow> fs_access list \<times> (error + pyobject)" where
  "CIFAR_PartitionedDataset fs kw =
     (case (kw_partition_id kw, kw_transform kw) of
        (None, None) \<Rightarrow>
          ([], Inl (TypeError ''missing 2 required keyword-only arguments: partition_id and transform''))
      | (None, Some t) \<Rightarrow>
          ([], Inl (TypeError ''missing 1 required keyword-only argument: partition_id''))
      | (Some p, None) \<Rightarrow>
          ([], Inl (TypeError ''missing 1 required keyword-only argument: transform''))
      | (Some p, Some t) \<Rightarrow>
          CIFAR_PartitionedDataset_init fs
            (case kw_num_classes kw of None \<Rightarrow> 10 | Some n \<Rightarrow> n)
            (case kw_root_dir kw of None \<Rightarrow> DATA_ROOT | Some r \<Rightarrow> r)
            p t)"

record sub_kwargs =
  sk_root_dir :: "string option"
  sk_partition_id :: "int option"

text \<open>The two subclasses: \<open>super().__init__(num_classes=..., root_dir=root_dir,
  partition_id=partition_id)\<close>, with no keyword \<open>transform\<close>.\<close>

definition CIFAR10PartitionedDataset ::
  "filesystem \<Rightarrow> sub_kwargs \<Rightarrow> fs_access list \<times> (error + pyobject)" where
  "CIFAR10PartitionedDataset fs kw =
     (case sk_partition_id kw of
        None \<Rightarrow> ([], Inl (TypeError ''missing 1 required keyword-only argument: partition_id''))
      | Some p \<Rightarrow>
          CIFAR_PartitionedDataset fs
            \<lparr>kw_num_classes = Some 10,
             kw_root_dir = Some (case sk_root_dir kw of None \<Rightarrow> DATA_ROOT | Some r \<Rightarrow> r),
             kw_partition_id = Some p,
             kw_transform = None\<rparr>)"

definition CIFAR100PartitionedDataset ::
  "filesystem \<Rightarrow> sub_kwargs \<Rightarrow> fs_access list \<times> (error + pyobject)" where
  "CIFAR100PartitionedDataset fs kw =
     (case sk_partition_id kw of
        None \<Rightarrow> ([], Inl (TypeError ''missing 1 required keyword-only argument: partition_id''))
      | Some p \<Rightarrow>
          CIFAR_PartitionedDataset fs
            \<lparr>kw_num_classes = Some 100,
             kw_root_dir = Some (case sk_root_dir kw of None \<Rightarrow> DATA_ROOT | Some r \<Rightarrow> r),
             kw_partition_id = Some p,
             kw_transform = None\<rparr>)"

section \<open>The partition generator (the script under \<open>__main__\<close>)\<close>

text \<open>
  The script calls code that is not part of the module: the torchvision dataset
  classes, \<open>convert_pytorch_dataset_to_xy\<close>, \<open>create_lda_partitions\<close>, \<open>np.empty\<close>,
  the formatting of a float and the float literal \<open>0.1\<close>. They are parameters of the
  model. Datasets, array pairs, shards, distributions and floats are type parameters.
\<close>

datatype dataset_class = CIFAR10 | CIFAR100

record ('ds, 'xy, 'shard, 'dist, 'r) collaborators =
  torchvision_dataset :: "dataset_class \<Rightarrow> string \<Rightarrow> bool \<Rightarrow> bool \<Rightarrow> 'ds"
  convert_pytorch_dataset_to_xy :: "'ds \<Rightarrow> 'xy"
  create_lda_partitions :: "'xy \<Rightarrow> 'dist \<Rightarrow> int \<Rightarrow> 'r \<Rightarrow> 'shard list \<times> 'dist"
  np_empty_0 :: "'dist"
  format_2f :: "'r \<Rightarrow> string"
  float_0_1 :: "'r"

text \<open>
  What the script does to the outside, in the order it does it: the calls of the
  dataset class (class, \<open>root\<close>, \<open>train\<close>, \<open>download\<close>), of \<open>mkdir\<close> (path, \<open>parents\<close>,
  \<open>exist_ok\<close>), of the conversion, of the partitioner (dataset, \<open>dirichlet_dist\<close>,
  \<open>num_partitions\<close>, \<open>concentration\<close>) and of \<open>save\<close> (object, path). The script
  handles no exception: the list is that of a run in which none of them raises.
\<close>

datatype ('ds, 'xy, 'shard, 'dist, 'r) call =
    DatasetCall dataset_class string bool bool
  | MkdirCall path bool bool
  | ConvertCall 'ds
  | PartitionCall 'xy 'dist int 'r
  | SaveCall 'shard path

text \<open>The command line as \<open>argparse\<close> sees it, each option already converted to its
  type, \<open>None\<close> when the option is absent; and the namespace \<open>parse_args\<close> returns.\<close>

record 'r argv =
  opt_num_classes :: "int option"
  opt_num_partitions :: "int option"
  opt_alpha :: "'r option"
  opt_save_root :: "string option"

record 'r namespace =
  args_num_classes :: int
  args_num_partitions :: int
  args_alpha :: 'r
  args_save_root :: string

definition parse_args ::
  "('ds, 'xy, 'shard, 'dist, 'r) collaborators \<Rightarrow> 'r argv \<Rightarrow> error + 'r namespace" where
  "parse_args ext argv =
     (case opt_num_classes argv of
        None \<Rightarrow> Inl (SystemExit 2)
      | Some n \<Rightarrow>
          if n \<notin> set [10, 100] then Inl (SystemExit 2)
          else Inr \<lparr>args_num_classes = n,
                    args_num_partitions = (case opt_num_partitions argv of None \<Rightarrow> 500 | Some k \<Rightarrow> k),
                    args_alpha = (case opt_alpha argv of None \<Rightarrow> float_0_1 ext | Some a \<Rightarrow> a),
                    args_save_root = (case opt_save_root argv of None \<Rightarrow> DATA_ROOT | Some r \<Rightarrow> r)\<rparr>)"

text \<open>\<open>for idx, part in enumerate(partitions): save(part, save_dir / f"{idx:03}.pt")\<close>,
  with the counter of \<open>enumerate\<close> as an argument.\<close>

fun save_partitions ::
  "path \<Rightarrow> nat \<Rightarrow> 'shard list \<Rightarrow> ('ds, 'xy, 'shard, 'dist, 'r) call list" where
  "save_partitions save_dir idx [] = []"
| "save_partitions save_dir idx (part # rest) =
     SaveCall part (truediv save_dir (format_03 idx @ ''.pt''))
       # save_partitions save_dir (Suc idx) rest"

text \<open>The loop over the pairs (dataset, name), with \<open>dist\<close> as the loop's state.\<close>

fun partition_loop ::
  "('ds, 'xy, 'shard, 'dist, 'r) collaborators \<Rightarrow> 'r namespace \<Rightarrow> path \<Rightarrow>
   ('ds \<times> string) list \<Rightarrow> 'dist \<Rightarrow> ('ds, 'xy, 'shard, 'dist, 'r) call list \<times> 'dist" where
  "partition_loop ext args save_root [] dist = ([], dist)"
| "partition_loop ext args save_root ((dataset, data_str) # rest) dist =
     (let save_dir = truediv save_root data_str;
          np_dataset = convert_pytorch_dataset_to_xy ext dataset;
          (partitions, dist') =
             create_lda_partitions ext np_dataset dist (args_num_partitions args) (args_alpha args);
          (calls, dist'') = partition_loop ext args save_root rest dist'
      in ([MkdirCall save_dir True True,
           ConvertCall dataset,
           PartitionCall np_dataset dist (args_num_partitions args) (args_alpha args)]
            @ save_partitions save_dir 0 partitions @ calls,
          dist''))"

definition generator_save_root ::
  "('ds, 'xy, 'shard, 'dist, 'r) collaborators \<Rightarrow> 'r namespace \<Rightarrow> path" where
  "generator_save_root ext args =
     truediv (truediv (truediv (Path (args_save_root args)) ''partitions'') ''lda'')
       (format_2f ext (args_alpha args))"

definition dataset_root :: "'r namespace \<Rightarrow> string" where
  "dataset_root args = DATA_ROOT @ ''-'' @ str_int (args_num_classes args)"

definition train_dataset :: "('ds, 'xy, 'shard, 'dist, 'r) collaborators \<Rightarrow> 'r namespace \<Rightarrow> 'ds" where
  "train_dataset ext args = torchvision_dataset ext CIFAR10 (dataset_root args) True True"

definition test_dataset :: "('ds, 'xy, 'shard, 'dist, 'r) collaborators \<Rightarrow> 'r namespace \<Rightarrow> 'ds" where
  "test_dataset ext args = torchvision_dataset ext CIFAR10 (dataset_root args) True True"

text \<open>The script after \<open>parse_args\<close>. \<open>get_normalization_transform()\<close> only builds a
  value that is not used afterwards.\<close>

definition generate ::
  "('ds, 'xy, 'shard, 'dist, 'r) collaborators \<Rightarrow> 'r namespace \<Rightarrow>
   ('ds, 'xy, 'shard, 'dist, 'r) call list" where
  "generate ext args =
     [DatasetCall CIFAR10 (dataset_root args) True True,
      DatasetCall CIFAR10 (dataset_root args) True True]
     @ fst (partition_loop ext args (generator_save_root ext args)
              [(train_dataset ext args, ''train''), (test_dataset ext args, ''test'')]
              (np_empty_0 ext))"

definition main ::
  "('ds, 'xy, 'shard, 'dist, 'r) collaborators \<Rightarrow> 'r argv \<Rightarrow>
   ('ds, 'xy, 'shard, 'dist, 'r) call list \<times> (error + unit)" where
  "main ext argv =
     (case parse_args ext argv of
        Inl e \<Rightarrow> ([], Inl e)
      | Inr args \<Rightarrow> (generate ext args, Inr ()))"

subsection \<open>Selecting calls by kind\<close>

fun is_fs_call :: "('ds, 'xy, 'shard, 'dist, 'r) call \<Rightarrow> bool" where
  "is_fs_call (MkdirCall p parents exist_ok) = True"
| "is_fs_call (SaveCall part p) = True"
| "is_fs_call c = False"

fun is_PartitionCall :: "('ds, 'xy, 'shard, 'dist, 'r) call \<Rightarrow> bool" where
  "is_PartitionCall (PartitionCall xy dist n a) = True"
| "is_PartitionCall c = False"

fun is_DatasetCall :: "('ds, 'xy, 'shard, 'dist, 'r) call \<Rightarrow> bool" where
  "is_DatasetCall (DatasetCall cls root train download) = True"
| "is_DatasetCall c = False"

fun is_ConvertCall :: "('ds, 'xy, 'shard, 'dist, 'r) call \<Rightarrow> bool" where
  "is_ConvertCall (ConvertCall d) = True"
| "is_ConvertCall c = False"

section \<open>A concrete partition\<close>

text \<open>A file system holding one partition file, \<open>data/cifar10_0.pt\<close>, with two
  elements, and the instance that the constructor builds over it.\<close>

definition example_path :: path where
  "example_path = PurePath [] [''data'', ''cifar10_0.pt'']"

definition example_fs :: filesystem where
  "example_fs =
     \<lparr>contents = Map.empty(example_path \<mapsto>
         PartitionFile (Tensor [Scalar 7, Scalar 8]) (Tensor [Scalar 0, Scalar 1])),
      stat_fails = (\<lambda>p. False)\<rparr>"

text \<open>A file system that holds nothing, where \<open>stat\<close> fails on every path with a
  component of more than 255 characters, and a directory name of 256 characters.\<close>

definition long_name_fs :: filesystem where
  "long_name_fs =
     \<lparr>contents = Map.empty,
      stat_fails = (\<lambda>p. list_ex (\<lambda>c. 255 < length c) (comps p))\<rparr>"

definition long_name :: string where
  "long_name = replicate 256 CHR ''a''"

definition example_view :: pyobject where
  "example_view =
     [''root_dir'' \<mapsto> PathV (PurePath [] [''data'']),
      ''partition_id'' \<mapsto> IntV 0,
      ''partition_path'' \<mapsto> PathV example_path,
      ''X'' \<mapsto> TensorV (Tensor [Scalar 7, Scalar 8]),
      ''Y'' \<mapsto> TensorV (Tensor [Scalar 0, Scalar 1])]"

section \<open>A concrete run of the generator\<close>

text \<open>
  Collaborators that can be evaluated: a dataset is the request that produced it, the
  conversion changes nothing, the partitioner returns \<open>num_partitions\<close> numbered shards
  and the distribution \<open>[3, 7]\<close> when it is given the empty one, the distribution it is
  given otherwise. The command line is
  \<open>--num_classes 100 --num_partitions 2 --save_root out\<close>.
\<close>

definition example_ext ::
  "(dataset_class \<times> string \<times> bool, dataset_class \<times> string \<times> bool, nat, nat list, unit)
     collaborators" where
  "example_ext =
     \<lparr>torchvision_dataset = (\<lambda>cls root train download. (cls, root, train)),
      convert_pytorch_dataset_to_xy = (\<lambda>d. d),
      create_lda_partitions =
        (\<lambda>xy dist n a. (map (\<lambda>i. 10 * Suc i + length dist) [0..<nat n],
                         if dist = [] then [3, 7] else dist)),
      np_empty_0 = [],
      format_2f = (\<lambda>a. ''0.10''),
      float_0_1 = ()\<rparr>"

definition example_args :: "unit namespace" where
  "example_args =
     \<lparr>args_num_classes = 100, args_num_partitions = 2, args_alpha = (),
      args_save_root = ''out''\<rparr>"

definition example_argv :: "unit argv" where
  "example_argv =
     \<lparr>opt_num_classes = Some 100, opt_num_partitions = Some 2, opt_alpha = None,
      opt_save_root = Some ''out''\<rparr>"

section \<open>Properties of the formatting and of paths\<close>

lemma digit_char_in: "d < 10 \<Longrightarrow> digit_char d \<in> set ''0123456789''"
proof -
  assume "d < 10"
  then have "d < length ''0123456789''" by simp
  then have "''0123456789'' ! d \<in> set ''0123456789''" by (rule nth_mem)
  then show ?thesis by (simp only: digit_char_def)
qed

lemma digits_chars: "set (digits n) \<subseteq> set ''0123456789''"
proof (induction n rule: digits.induct)
  case (1 n)
  show ?case
  proof (cases "n < 10")
    case True
    then show ?thesis using digit_char_in [of n] by (subst digits.simps) simp
  next
    case False
    have "digit_char (n mod 10) \<in> set ''0123456789''" by (rule digit_char_in) simp
    with False 1 show ?thesis by (subst digits.simps) simp
  qed
qed

lemma split_slash_plain: "CHR ''/'' \<notin> set s \<Longrightarrow> split_slash s = [s]"
  by (induction s) auto


lemma digits_no_slash: "CHR ''/'' \<notin> set (digits n)"
proof -
  have "CHR ''/'' \<notin> set ''0123456789''" by simp
  with digits_chars [of n] show ?thesis by blast
qed

lemma str_int_no_slash: "CHR ''/'' \<notin> set (str_int i)"
  by (simp add: str_int_def digits_no_slash)

lemma partition_file_name_no_slash: "CHR ''/'' \<notin> set (partition_file_name n p)"
  by (simp add: partition_file_name_def str_int_no_slash)


lemma Path_partition_file_name:
  "Path (partition_file_name n p) = PurePath [] [partition_file_name n p]"
proof -
  have "split_slash (partition_file_name n p) = [partition_file_name n p]"
    by (rule split_slash_plain) (rule partition_file_name_no_slash)
  moreover have "parse_anchor (partition_file_name n p) = []"
    by (simp add: parse_anchor_def partition_file_name_def)
  moreover have "partition_file_name n p \<noteq> []" "partition_file_name n p \<noteq> ''.''"
    by (simp_all add: partition_file_name_def)
  ultimately show ?thesis by (simp add: Path_def)
qed

lemma truediv_partition_file_name:
  "truediv d (partition_file_name n p) = PurePath (anchor d) (comps d @ [partition_file_name n p])"
  by (simp add: truediv_def Path_partition_file_name)

section \<open>The constructed instance\<close>

lemma init_success:
  assumes "CIFAR_PartitionedDataset_init fs nc rd pid tr = (log, Inr self)"
  shows "\<exists>X Y. contents fs (truediv (Path rd) (partition_file_name nc pid)) = Some (PartitionFile X Y)
           \<and> self = [''root_dir'' \<mapsto> PathV (Path rd), ''partition_id'' \<mapsto> IntV pid,
                ''partition_path'' \<mapsto> PathV (truediv (Path rd) (partition_file_name nc pid)),
                ''X'' \<mapsto> TensorV X, ''Y'' \<mapsto> TensorV Y]"
  using assms
  by (auto simp: CIFAR_PartitionedDataset_init_def Let_def load_def exists_def
           split: if_splits option.splits node.splits sum.splits)

lemma tensor_getitem_overflow:
  "\<not> fits_int64 idx \<Longrightarrow> tensor_getitem t idx = Inl (RuntimeError ''Overflow when unpacking long'')"
  by (simp add: tensor_getitem_def)

lemma tensor_getitem_out:
  "fits_int64 idx \<Longrightarrow> \<not> index_in_range t idx \<Longrightarrow> tensor_getitem t idx = Inl IndexError"
  by (cases t) (auto simp: tensor_getitem_def Let_def)

lemma tensor_getitem_in:
  "fits_int64 idx \<Longrightarrow> index_in_range t idx \<Longrightarrow> \<exists>x. tensor_getitem t idx = Inr x"
  by (cases t) (auto simp: tensor_getitem_def Let_def)

lemma getitem_constructed:
  "dunder_getitem
     [''root_dir'' \<mapsto> r, ''partition_id'' \<mapsto> i, ''partition_path'' \<mapsto> p,
      ''X'' \<mapsto> TensorV X, ''Y'' \<mapsto> TensorV Y] idx =
   (if \<not> fits_int64 idx then Inl (RuntimeError ''Overflow when unpacking long'')
    else if index_in_range X idx \<and> index_in_range Y idx
    then Inl (AttributeError ''transform'') else Inl IndexError)"
proof -
  let ?self = "[''root_dir'' \<mapsto> r, ''partition_id'' \<mapsto> i, ''partition_path'' \<mapsto> p,
      ''X'' \<mapsto> TensorV X, ''Y'' \<mapsto> TensorV Y]"
  have x: "getattr ?self ''X'' = Inr (TensorV X)" by (simp add: getattr_def)
  have y: "getattr ?self ''Y'' = Inr (TensorV Y)" by (simp add: getattr_def)
  have t: "getattr ?self ''transform'' = Inl (AttributeError ''transform'')"
    by (simp add: getattr_def)
  show ?thesis
  proof (cases "fits_int64 idx")
    case False
    then show ?thesis
      unfolding dunder_getitem_def x by (simp add: tensor_getitem_overflow)
  next
    case fits: True
    show ?thesis
    proof (cases "index_in_range X idx")
      case False
      then show ?thesis
        unfolding dunder_getitem_def x using fits by (simp add: tensor_getitem_out)
    next
      case inX: True
      then obtain xe where xe: "tensor_getitem X idx = Inr xe"
        using tensor_getitem_in fits by blast
      show ?thesis
      proof (cases "index_in_range Y idx")
        case False
        then show ?thesis
          unfolding dunder_getitem_def x y using inX xe fits by (simp add: tensor_getitem_out)
      next
        case True
        then obtain ye where ye: "tensor_getitem Y idx = Inr ye"
          using tensor_getitem_in fits by blast
        from True inX fits show ?thesis
          unfolding dunder_getitem_def x y t by (simp add: xe ye)
      qed
    qed
  qed
qed

lemma len_constructed:
  "dunder_len
     [''root_dir'' \<mapsto> r, ''partition_id'' \<mapsto> i, ''partition_path'' \<mapsto> p,
      ''X'' \<mapsto> TensorV X, ''Y'' \<mapsto> TensorV Y] = tensor_len X"
  by (simp add: dunder_len_def getattr_def)

lemma example_Path: "Path ''data'' = PurePath [] [''data'']"
  by code_simp

lemma example_partition_path:
  "truediv (PurePath [] [''data'']) (partition_file_name 10 0) = example_path"
  unfolding example_path_def by code_simp

lemma example_init:
  "CIFAR_PartitionedDataset_init example_fs 10 ''data'' 0 None =
     ([Exists example_path, Load example_path], Inr example_view)"
  by (simp add: CIFAR_PartitionedDataset_init_def example_Path example_partition_path
        exists_def load_def example_fs_def example_view_def)

lemma example_contents:
  "contents example_fs (truediv (Path ''data'') (partition_file_name 10 0)) =
      Some (PartitionFile (Tensor [Scalar 7, Scalar 8]) (Tensor [Scalar 0, Scalar 1]))"
  by (simp add: example_Path example_partition_path example_fs_def)

section \<open>The claims about the dataset\<close>

text \<open>
  Claim C1, as stated, fails on the instance over the two-element partition: the item
  at index 0 is not returned, and index \<open>-1\<close>, which is negative, does not raise
  IndexError.
\<close>

theorem C1_counterexample:
  "CIFAR_PartitionedDataset_init example_fs 10 ''data'' 0 None =
     ([Exists example_path, Load example_path], Inr example_view)
   \<and> contents example_fs example_path =
       Some (PartitionFile (Tensor [Scalar 7, Scalar 8]) (Tensor [Scalar 0, Scalar 1]))
   \<and> dunder_getitem example_view 0 \<noteq> Inr (Scalar 7, Scalar 0)
   \<and> dunder_getitem example_view (- 1) \<noteq> Inl IndexError"
proof -
  have "contents example_fs example_path =
       Some (PartitionFile (Tensor [Scalar 7, Scalar 8]) (Tensor [Scalar 0, Scalar 1]))"
    by (simp add: example_fs_def)
  moreover have "dunder_getitem example_view 0 = Inl (AttributeError ''transform'')"
    unfolding example_view_def getitem_constructed by (simp add: fits_int64_def)
  moreover have "dunder_getitem example_view (- 1) = Inl (AttributeError ''transform'')"
    unfolding example_view_def getitem_constructed by (simp add: fits_int64_def)
  ultimately show ?thesis using example_init by simp
qed

text \<open>
  Claim C1, amended. For an instance constructed over a partition file whose features
  have length \<open>L\<close>: \<open>__len__\<close> returns \<open>L\<close>; \<open>__getitem__\<close> raises IndexError for every
  index \<open>i\<close> that fits in 64 bits with \<open>i < -L\<close> or \<open>i \<ge> L\<close>; and it raises RuntimeError
  (overflow) for every index that does not fit in 64 bits.
\<close>

theorem C1_len_and_index_error:
  assumes "CIFAR_PartitionedDataset_init fs nc rd pid tr = (log, Inr self)"
    and "contents fs (truediv (Path rd) (partition_file_name nc pid))
           = Some (PartitionFile (Tensor xs) Y)"
  shows "dunder_len self = Inr (int (length xs))
       \<and> (\<forall>i. - (2 ^ 63) \<le> i \<and> i < 2 ^ 63 \<and> (i < - int (length xs) \<or> int (length xs) \<le> i)
              \<longrightarrow> dunder_getitem self i = Inl IndexError)
       \<and> (\<forall>i. i < - (2 ^ 63) \<or> 2 ^ 63 \<le> i
              \<longrightarrow> dunder_getitem self i = Inl (RuntimeError ''Overflow when unpacking long''))"
proof -
  from init_success [OF assms(1)] assms(2)
  have self: "self = [''root_dir'' \<mapsto> PathV (Path rd), ''partition_id'' \<mapsto> IntV pid,
                ''partition_path'' \<mapsto> PathV (truediv (Path rd) (partition_file_name nc pid)),
                ''X'' \<mapsto> TensorV (Tensor xs), ''Y'' \<mapsto> TensorV Y]"
    by auto
  have "dunder_len self = Inr (int (length xs))"
    unfolding self len_constructed by simp
  moreover have "dunder_getitem self i = Inl IndexError"
    if "- (2 ^ 63) \<le> i \<and> i < 2 ^ 63 \<and> (i < - int (length xs) \<or> int (length xs) \<le> i)" for i
    unfolding self getitem_constructed using that by (auto simp: fits_int64_def)
  moreover have "dunder_getitem self i = Inl (RuntimeError ''Overflow when unpacking long'')"
    if "i < - (2 ^ 63) \<or> 2 ^ 63 \<le> i" for i
    unfolding self getitem_constructed using that by (auto simp: fits_int64_def)
  ultimately show ?thesis by blast
qed

text \<open>
  Claim C1, amended, on the two-element partition.
\<close>

theorem C1_witness:
  "CIFAR_PartitionedDataset_init example_fs 10 ''data'' 0 None =
     ([Exists example_path, Load example_path], Inr example_view)
   \<and> dunder_len example_view = Inr 2
   \<and> dunder_getitem example_view 2 = Inl IndexError
   \<and> dunder_getitem example_view (- 3) = Inl IndexError
   \<and> dunder_getitem example_view (2 ^ 63) = Inl (RuntimeError ''Overflow when unpacking long'')"
proof -
  note t = C1_len_and_index_error [OF example_init example_contents]
  from t have "dunder_len example_view = Inr 2" by simp
  moreover from t have "dunder_getitem example_view 2 = Inl IndexError" by simp
  moreover from t have "dunder_getitem example_view (- 3) = Inl IndexError" by simp
  moreover from t have "dunder_getitem example_view (2 ^ 63)
      = Inl (RuntimeError ''Overflow when unpacking long'')" by simp
  ultimately show ?thesis using example_init by simp
qed

text \<open>
  Claim C2, as stated, fails on the instance over the two-element partition: at index
  5 the element read raises IndexError before \<open>self.transform\<close> is read.
\<close>

theorem C2_counterexample:
  "CIFAR_PartitionedDataset_init example_fs 10 ''data'' 0 None =
     ([Exists example_path, Load example_path], Inr example_view)
   \<and> dunder_getitem example_view 5 = Inl IndexError
   \<and> dunder_getitem example_view 5 \<noteq> Inl (AttributeError ''transform'')"
proof -
  have "dunder_getitem example_view 5 = Inl IndexError"
    unfolding example_view_def getitem_constructed by (simp add: fits_int64_def)
  then show ?thesis using example_init by simp
qed

text \<open>
  Claim C2, amended. For every constructed instance, \<open>__getitem__\<close> never returns a
  pair: it raises RuntimeError (overflow) when the index does not fit in 64 bits,
  otherwise AttributeError for \<open>transform\<close> when the index is within range of both \<open>X\<close>
  and \<open>Y\<close>, and IndexError when it is out of range of one of them.
\<close>

theorem C2_getitem_never_returns:
  assumes "CIFAR_PartitionedDataset_init fs nc rd pid tr = (log, Inr self)"
    and "contents fs (truediv (Path rd) (partition_file_name nc pid)) = Some (PartitionFile X Y)"
  shows "(\<forall>idx. dunder_getitem self idx =
            (if idx < - (2 ^ 63) \<or> 2 ^ 63 \<le> idx
             then Inl (RuntimeError ''Overflow when unpacking long'')
             else if index_in_range X idx \<and> index_in_range Y idx
             then Inl (AttributeError ''transform'') else Inl IndexError))
       \<and> (\<forall>idx x y. dunder_getitem self idx \<noteq> Inr (x, y))"
proof -
  from init_success [OF assms(1)] assms(2)
  have self: "self = [''root_dir'' \<mapsto> PathV (Path rd), ''partition_id'' \<mapsto> IntV pid,
                ''partition_path'' \<mapsto> PathV (truediv (Path rd) (partition_file_name nc pid)),
                ''X'' \<mapsto> TensorV X, ''Y'' \<mapsto> TensorV Y]"
    by auto
  have f: "(\<not> fits_int64 idx) = (idx < - (2 ^ 63) \<or> 2 ^ 63 \<le> idx)" for idx
    by (auto simp: fits_int64_def)
  show ?thesis unfolding self getitem_constructed f by simp
qed

text \<open>
  Claim C2, amended, on the two-element partition.
\<close>

theorem C2_witness:
  "dunder_getitem example_view 1 = Inl (AttributeError ''transform'')
   \<and> dunder_getitem example_view (- 2) = Inl (AttributeError ''transform'')
   \<and> dunder_getitem example_view (- 3) = Inl IndexError
   \<and> dunder_getitem example_view (- (2 ^ 63) - 1)
       = Inl (RuntimeError ''Overflow when unpacking long'')
   \<and> (\<forall>idx x y. dunder_getitem example_view idx \<noteq> Inr (x, y))"
proof -
  note t = C2_getitem_never_returns [OF example_init example_contents]
  from t have "dunder_getitem example_view 1 = Inl (AttributeError ''transform'')" by simp
  moreover from t have "dunder_getitem example_view (- 2) = Inl (AttributeError ''transform'')"
    by simp
  moreover from t have "dunder_getitem example_view (- 3) = Inl IndexError" by simp
  moreover from t have "dunder_getitem example_view (- (2 ^ 63) - 1)
       = Inl (RuntimeError ''Overflow when unpacking long'')" by simp
  moreover from t have "\<forall>idx x y. dunder_getitem example_view idx \<noteq> Inr (x, y)" by blast
  ultimately show ?thesis by blast
qed

text \<open>
  Claim C3. When \<open>num_classes\<close> is neither 10 nor 100 the constructor raises
  ValueError and has made no access to the file system, whatever the file system holds.
\<close>

theorem C3_invalid_num_classes:
  assumes "num_classes \<notin> {10, 100}"
  shows "CIFAR_PartitionedDataset_init fs num_classes root_dir partition_id transform
           = ([], Inl ValueError)
       \<and> CIFAR_PartitionedDataset fs
           \<lparr>kw_num_classes = Some num_classes, kw_root_dir = r,
            kw_partition_id = Some partition_id, kw_transform = Some transform\<rparr>
           = ([], Inl ValueError)"
  using assms by (simp add: CIFAR_PartitionedDataset_init_def CIFAR_PartitionedDataset_def)

text \<open>
  Claim C3 at \<open>num_classes = 11\<close>.
\<close>

theorem C3_witness:
  "(11::int) \<notin> {10, 100}
   \<and> CIFAR_PartitionedDataset_init example_fs 11 ''data'' 0 None = ([], Inl ValueError)
   \<and> CIFAR_PartitionedDataset example_fs
        \<lparr>kw_num_classes = Some 11, kw_root_dir = Some ''data'',
         kw_partition_id = Some 0, kw_transform = Some None\<rparr> = ([], Inl ValueError)"
proof -
  have h: "(11::int) \<notin> {10, 100}" by simp
  from C3_invalid_num_classes [OF h, of example_fs "''data''" 0 None "Some ''data''"] h
  show ?thesis by simp
qed


lemma long_name_path:
  "truediv (Path long_name) (partition_file_name 10 0) = PurePath [] [long_name, ''cifar10_0.pt'']"
  unfolding long_name_def by code_simp

text \<open>
  Claim C4, as stated, fails where the existence test itself fails: nothing is stored
  under the path whose directory name has 256 characters, and the constructor raises
  OSError, not the "not found" RuntimeError.
\<close>

theorem C4_counterexample:
  "contents long_name_fs (truediv (Path long_name) (partition_file_name 10 0)) = None
   \<and> CIFAR_PartitionedDataset_init long_name_fs 10 long_name 0 None =
       ([Exists (PurePath [] [long_name, ''cifar10_0.pt''])], Inl OSError)
   \<and> snd (CIFAR_PartitionedDataset_init long_name_fs 10 long_name 0 None) \<noteq>
       Inl (RuntimeError (not_found_message (PurePath [] [long_name, ''cifar10_0.pt''])))"
proof -
  have l: "255 < length long_name" by (simp add: long_name_def)
  have "CIFAR_PartitionedDataset_init long_name_fs 10 long_name 0 None =
       ([Exists (PurePath [] [long_name, ''cifar10_0.pt''])], Inl OSError)"
    using l
    by (simp add: CIFAR_PartitionedDataset_init_def long_name_path exists_def long_name_fs_def)
  then show ?thesis by (simp add: long_name_fs_def)
qed

text \<open>
  Claim C4, amended. For \<open>num_classes\<close> 10 or 100 the partition path is
  \<open>Path(root_dir) / "cifar{num_classes}_{partition_id}.pt"\<close>, which is the components of
  \<open>root_dir\<close> followed by the file name as one component; the constructor tests this
  path and no other. It raises the "not found" RuntimeError exactly when
  \<open>Path.exists\<close> returns \<open>False\<close>; when \<open>Path.exists\<close> raises OSError, that error is
  raised and nothing is loaded; a damaged file that exists gives a RuntimeError of
  \<open>torch.load\<close>, with another message.
\<close>

theorem C4_partition_path:
  assumes "num_classes \<in> {10, 100}"
  shows "let p = truediv (Path root_dir)
                   (''cifar'' @ str_int num_classes @ ''_'' @ str_int partition_id @ ''.pt'');
             r = CIFAR_PartitionedDataset_init fs num_classes root_dir partition_id transform
         in p = PurePath (anchor (Path root_dir))
                  (comps (Path root_dir)
                     @ [''cifar'' @ str_int num_classes @ ''_'' @ str_int partition_id @ ''.pt''])
          \<and> fst r = (if exists fs p = Inr True then [Exists p, Load p] else [Exists p])
          \<and> (snd r = Inl (RuntimeError (''Partition file '' @ path_str p @ '' not found.''))
               \<longleftrightarrow> exists fs p = Inr False)
          \<and> (exists fs p = Inl OSError \<longrightarrow> snd r = Inl OSError)
          \<and> (exists fs p = Inr True \<and> contents fs p = Some DamagedFile \<longrightarrow>
               snd r = Inl (RuntimeError ''PytorchStreamReader failed reading zip archive''))
          \<and> (\<forall>self. snd r = Inr self \<longrightarrow> self ''partition_path'' = Some (PathV p))"
proof -
  define p where "p = truediv (Path root_dir) (partition_file_name num_classes partition_id)"
  define r where "r = CIFAR_PartitionedDataset_init fs num_classes root_dir partition_id transform"
  have nc: "num_classes \<in> set [10, 100]" using assms by simp
  have shape: "p = PurePath (anchor (Path root_dir))
                  (comps (Path root_dir) @ [partition_file_name num_classes partition_id])"
    unfolding p_def by (rule truediv_partition_file_name)
  have failing: "r = ([Exists p], Inl OSError)" if "stat_fails fs p"
    using that nc unfolding r_def p_def
    by (simp add: CIFAR_PartitionedDataset_init_def exists_def Let_def)
  have absent: "r = ([Exists p], Inl (RuntimeError (not_found_message p)))"
    if "\<not> stat_fails fs p" "contents fs p = None"
    using that nc unfolding r_def p_def
    by (simp add: CIFAR_PartitionedDataset_init_def exists_def Let_def)
  have present: "fst r = [Exists p, Load p] \<and> snd r \<noteq> Inl (RuntimeError (not_found_message p))
        \<and> (contents fs p = Some DamagedFile \<longrightarrow>
             snd r = Inl (RuntimeError ''PytorchStreamReader failed reading zip archive''))
        \<and> (\<forall>self. snd r = Inr self \<longrightarrow> self ''partition_path'' = Some (PathV p))"
    if "\<not> stat_fails fs p" "contents fs p \<noteq> None"
    using that nc unfolding r_def p_def
    by (auto simp: CIFAR_PartitionedDataset_init_def exists_def load_def Let_def
          not_found_message_def split: node.splits if_splits)
  consider "stat_fails fs p" | "\<not> stat_fails fs p" "contents fs p = None"
    | "\<not> stat_fails fs p" "contents fs p \<noteq> None"
    by blast
  then have "fst r = (if exists fs p = Inr True then [Exists p, Load p] else [Exists p])
      \<and> (snd r = Inl (RuntimeError (not_found_message p)) \<longleftrightarrow> exists fs p = Inr False)
      \<and> (exists fs p = Inl OSError \<longrightarrow> snd r = Inl OSError)
      \<and> (exists fs p = Inr True \<and> contents fs p = Some DamagedFile \<longrightarrow>
           snd r = Inl (RuntimeError ''PytorchStreamReader failed reading zip archive''))
      \<and> (\<forall>self. snd r = Inr self \<longrightarrow> self ''partition_path'' = Some (PathV p))"
  proof cases
    case 1
    with failing show ?thesis by (simp add: exists_def)
  next
    case 2
    with absent show ?thesis by (simp add: exists_def)
  next
    case 3
    with present show ?thesis by (simp add: exists_def)
  qed
  then show ?thesis
    using shape
    unfolding Let_def p_def [symmetric] r_def [symmetric]
      partition_file_name_def [symmetric] not_found_message_def [symmetric]
    by (simp add: p_def [symmetric] r_def [symmetric] partition_file_name_def [symmetric]
          not_found_message_def [symmetric])
qed

text \<open>
  Claim C4, amended, at \<open>root_dir = "data"\<close>, \<open>num_classes = 10\<close>, \<open>partition_id = 1\<close>,
  where the file system holds \<open>data/cifar10_0.pt\<close> only and \<open>stat\<close> never fails.
\<close>

theorem C4_witness:
  "(10::int) \<in> {10, 100}
   \<and> CIFAR_PartitionedDataset_init example_fs 10 ''data'' 1 None =
       ([Exists (PurePath [] [''data'', ''cifar10_1.pt''])],
        Inl (RuntimeError ''Partition file data/cifar10_1.pt not found.''))"
proof -
  have h: "(10::int) \<in> {10, 100}" by simp
  have p: "truediv (Path ''data'') (''cifar'' @ str_int 10 @ ''_'' @ str_int 1 @ ''.pt'')
             = PurePath [] [''data'', ''cifar10_1.pt'']"
    by code_simp
  have s: "path_str (PurePath [] [''data'', ''cifar10_1.pt'']) = ''data/cifar10_1.pt''"
    by code_simp
  have n: "exists example_fs (PurePath [] [''data'', ''cifar10_1.pt'']) = Inr False"
    by (simp add: exists_def example_fs_def example_path_def)
  note c = C4_partition_path [OF h, of "''data''" 1 example_fs None, unfolded Let_def p s n]
  from c h show ?thesis by (simp add: prod_eq_iff)
qed

text \<open>
  Claim C5 fails on the code. Over the file system that holds \<open>data/cifar10_0.pt\<close>,
  \<open>CIFAR10PartitionedDataset(root_dir="data", partition_id=0)\<close> raises TypeError without
  looking at the file system, while the base class called with \<open>num_classes=10\<close>, the
  same \<open>root_dir\<close> and \<open>partition_id\<close>, and its \<open>transform\<close> bound (to \<open>None\<close>) loads the
  partition and returns the instance of length 2.
\<close>

theorem C5_subclass_diverges:
  "CIFAR10PartitionedDataset example_fs \<lparr>sk_root_dir = Some ''data'', sk_partition_id = Some 0\<rparr> =
     ([], Inl (TypeError ''missing 1 required keyword-only argument: transform''))
   \<and> CIFAR_PartitionedDataset example_fs
       \<lparr>kw_num_classes = Some 10, kw_root_dir = Some ''data'', kw_partition_id = Some 0,
        kw_transform = Some None\<rparr> =
     ([Exists example_path, Load example_path], Inr example_view)
   \<and> dunder_len example_view = Inr 2"
proof -
  have "dunder_len example_view = Inr 2"
    unfolding example_view_def len_constructed by simp
  then show ?thesis
    by (simp add: CIFAR10PartitionedDataset_def CIFAR_PartitionedDataset_def example_init)
qed

text \<open>
  Claim C6. Every call of \<open>CIFAR10PartitionedDataset\<close> and of
  \<open>CIFAR100PartitionedDataset\<close> raises TypeError, before the body of the base
  constructor runs and without any access to the file system: with \<open>partition_id\<close>
  passed, the keyword-only argument \<open>transform\<close> of the base constructor is missing.
\<close>

theorem C6_specializations_raise_TypeError:
  "CIFAR10PartitionedDataset fs \<lparr>sk_root_dir = r, sk_partition_id = Some p\<rparr> =
     ([], Inl (TypeError ''missing 1 required keyword-only argument: transform''))
   \<and> CIFAR100PartitionedDataset fs \<lparr>sk_root_dir = r, sk_partition_id = Some p\<rparr> =
     ([], Inl (TypeError ''missing 1 required keyword-only argument: transform''))
   \<and> (\<forall>kw. \<exists>m. CIFAR10PartitionedDataset fs kw = ([], Inl (TypeError m)))
   \<and> (\<forall>kw. \<exists>m. CIFAR100PartitionedDataset fs kw = ([], Inl (TypeError m)))"
  by (simp add: CIFAR10PartitionedDataset_def CIFAR100PartitionedDataset_def
        CIFAR_PartitionedDataset_def split: option.splits)


text \<open>
  Claim C6 at \<open>root_dir = "data"\<close>, \<open>partition_id = 0\<close>, where the partition file exists.
\<close>

theorem C6_witness:
  "CIFAR10PartitionedDataset example_fs \<lparr>sk_root_dir = Some ''data'', sk_partition_id = Some 0\<rparr> =
     ([], Inl (TypeError ''missing 1 required keyword-only argument: transform''))"
  using C6_specializations_raise_TypeError [of example_fs "Some ''data''" 0] by (rule conjunct1)

section \<open>The calls made by the generator\<close>


lemma generate_calls:
  "generate ext args =
     [DatasetCall CIFAR10 (dataset_root args) True True,
      DatasetCall CIFAR10 (dataset_root args) True True,
      MkdirCall (truediv (generator_save_root ext args) ''train'') True True,
      ConvertCall (train_dataset ext args),
      PartitionCall (convert_pytorch_dataset_to_xy ext (train_dataset ext args)) (np_empty_0 ext)
        (args_num_partitions args) (args_alpha args)]
     @ save_partitions (truediv (generator_save_root ext args) ''train'') 0
         (fst (create_lda_partitions ext (convert_pytorch_dataset_to_xy ext (train_dataset ext args))
                 (np_empty_0 ext) (args_num_partitions args) (args_alpha args)))
     @ [MkdirCall (truediv (generator_save_root ext args) ''test'') True True,
        ConvertCall (test_dataset ext args),
        PartitionCall (convert_pytorch_dataset_to_xy ext (test_dataset ext args))
          (snd (create_lda_partitions ext (convert_pytorch_dataset_to_xy ext (train_dataset ext args))
                 (np_empty_0 ext) (args_num_partitions args) (args_alpha args)))
          (args_num_partitions args) (args_alpha args)]
     @ save_partitions (truediv (generator_save_root ext args) ''test'') 0
         (fst (create_lda_partitions ext (convert_pytorch_dataset_to_xy ext (test_dataset ext args))
                 (snd (create_lda_partitions ext
                         (convert_pytorch_dataset_to_xy ext (train_dataset ext args))
                         (np_empty_0 ext) (args_num_partitions args) (args_alpha args)))
                 (args_num_partitions args) (args_alpha args)))"
  by (simp add: generate_def Let_def split_beta)

lemma filter_save_partitions:
  "filter is_fs_call (save_partitions d k ps) = save_partitions d k ps"
  "filter is_PartitionCall (save_partitions d k ps) = []"
  "filter is_DatasetCall (save_partitions d k ps) = []"
  "filter is_ConvertCall (save_partitions d k ps) = []"
  by (induction ps arbitrary: k) simp_all







text \<open>
  Claim C8. The partitioner is called twice: first for the train dataset with the
  empty array \<open>np.empty(0)\<close> as \<open>dirichlet_dist\<close>, then for the test dataset with the
  distribution that the first call returned.
\<close>

theorem C8_distribution_threaded:
  "let n = args_num_partitions args; alpha = args_alpha args;
       train_xy = convert_pytorch_dataset_to_xy ext (train_dataset ext args);
       test_xy = convert_pytorch_dataset_to_xy ext (test_dataset ext args)
   in filter is_PartitionCall (generate ext args) =
        [PartitionCall train_xy (np_empty_0 ext) n alpha,
         PartitionCall test_xy
           (snd (create_lda_partitions ext train_xy (np_empty_0 ext) n alpha)) n alpha]"
  by (simp add: generate_calls filter_save_partitions Let_def)

text \<open>
  Claim C9. The datasets named \<open>train_dataset\<close> and \<open>test_dataset\<close> come from the
  same request, \<open>CIFAR10(root=f"{DATA_ROOT}-{num_classes}", train=True, download=True)\<close>,
  made twice, and are equal; both conversions are applied to that dataset.
\<close>

theorem C9_both_datasets_from_train_split:
  "let root = DATA_ROOT @ ''-'' @ str_int (args_num_classes args);
       d = torchvision_dataset ext CIFAR10 root True True
   in train_dataset ext args = d
      \<and> test_dataset ext args = d
      \<and> filter is_DatasetCall (generate ext args) =
           [DatasetCall CIFAR10 root True True, DatasetCall CIFAR10 root True True]
      \<and> filter is_ConvertCall (generate ext args) = [ConvertCall d, ConvertCall d]"
  by (simp add: generate_calls filter_save_partitions Let_def train_dataset_def
        test_dataset_def dataset_root_def)

text \<open>
  Claim C10. For \<open>--num_classes\<close> 10 and for 100 alike the script runs; the two
  datasets it requests are of class \<open>CIFAR10\<close> with root \<open>{DATA_ROOT}-{num_classes}\<close>;
  the datasets that it converts and hands to the partitioner are the results of these
  \<open>CIFAR10\<close> requests; and class \<open>CIFAR100\<close> is never requested.
\<close>

theorem C10_always_CIFAR10:
  assumes "opt_num_classes argv = Some n" and "n \<in> {10, 100}"
  shows "let root = DATA_ROOT @ ''-'' @ str_int n;
             d = torchvision_dataset ext CIFAR10 root True True;
             xy = convert_pytorch_dataset_to_xy ext d;
             k = (case opt_num_partitions argv of None \<Rightarrow> 500 | Some k \<Rightarrow> k);
             a = (case opt_alpha argv of None \<Rightarrow> float_0_1 ext | Some a \<Rightarrow> a)
         in snd (main ext argv) = Inr ()
          \<and> filter is_DatasetCall (fst (main ext argv)) =
              [DatasetCall CIFAR10 root True True, DatasetCall CIFAR10 root True True]
          \<and> filter is_ConvertCall (fst (main ext argv)) = [ConvertCall d, ConvertCall d]
          \<and> filter is_PartitionCall (fst (main ext argv)) =
              [PartitionCall xy (np_empty_0 ext) k a,
               PartitionCall xy (snd (create_lda_partitions ext xy (np_empty_0 ext) k a)) k a]
          \<and> (\<forall>root train download.
                DatasetCall CIFAR100 root train download \<notin> set (fst (main ext argv)))"
proof -
  define args where "args = \<lparr>args_num_classes = n,
      args_num_partitions = (case opt_num_partitions argv of None \<Rightarrow> 500 | Some k \<Rightarrow> k),
      args_alpha = (case opt_alpha argv of None \<Rightarrow> float_0_1 ext | Some a \<Rightarrow> a),
      args_save_root = (case opt_save_root argv of None \<Rightarrow> DATA_ROOT | Some r \<Rightarrow> r)\<rparr>"
  define root where "root = DATA_ROOT @ ''-'' @ str_int n"
  define d where "d = torchvision_dataset ext CIFAR10 root True True"
  have m: "main ext argv = (generate ext args, Inr ())"
    using assms by (auto simp: main_def parse_args_def args_def)
  have ds: "train_dataset ext args = d" "test_dataset ext args = d"
    by (simp_all add: train_dataset_def test_dataset_def dataset_root_def args_def d_def root_def)
  have requests: "filter is_DatasetCall (generate ext args) =
      [DatasetCall CIFAR10 root True True, DatasetCall CIFAR10 root True True]"
    by (simp add: generate_calls filter_save_partitions dataset_root_def args_def root_def)
  have converts: "filter is_ConvertCall (generate ext args) = [ConvertCall d, ConvertCall d]"
    by (simp add: generate_calls filter_save_partitions ds)
  have partitions: "filter is_PartitionCall (generate ext args) =
      [PartitionCall (convert_pytorch_dataset_to_xy ext d) (np_empty_0 ext)
         (args_num_partitions args) (args_alpha args),
       PartitionCall (convert_pytorch_dataset_to_xy ext d)
         (snd (create_lda_partitions ext (convert_pytorch_dataset_to_xy ext d) (np_empty_0 ext)
                 (args_num_partitions args) (args_alpha args)))
         (args_num_partitions args) (args_alpha args)]"
    by (simp add: generate_calls filter_save_partitions ds)
  have never: "DatasetCall CIFAR100 r train download \<notin> set (generate ext args)"
    for r train download
  proof
    assume "DatasetCall CIFAR100 r train download \<in> set (generate ext args)"
    then have "DatasetCall CIFAR100 r train download
        \<in> set (filter is_DatasetCall (generate ext args))"
      by simp
    then show False unfolding requests by simp
  qed
  have a: "args_num_partitions args = (case opt_num_partitions argv of None \<Rightarrow> 500 | Some k \<Rightarrow> k)"
    "args_alpha args = (case opt_alpha argv of None \<Rightarrow> float_0_1 ext | Some a \<Rightarrow> a)"
    by (simp_all add: args_def)
  show ?thesis
    unfolding Let_def root_def [symmetric] d_def [symmetric] m fst_conv snd_conv
    using requests converts partitions never unfolding a by simp
qed

subsection \<open>Evaluation of the concrete run\<close>








lemma example_dataset_root:
  "DATA_ROOT @ ''-'' @ str_int 100 = ''~/.flower/data/cifar-100''"
  by code_simp

lemma example_datasets:
  "train_dataset example_ext example_args = (CIFAR10, ''~/.flower/data/cifar-100'', True)"
  "test_dataset example_ext example_args = (CIFAR10, ''~/.flower/data/cifar-100'', True)"
  using example_dataset_root
  by (simp_all add: train_dataset_def test_dataset_def dataset_root_def example_ext_def
        example_args_def)

text \<open>
  Claim C8 on the concrete run: the second call receives \<open>[3, 7]\<close>, returned by the
  first.
\<close>

theorem C8_witness:
  "filter is_PartitionCall (generate example_ext example_args) =
     [PartitionCall (CIFAR10, ''~/.flower/data/cifar-100'', True) [] 2 (),
      PartitionCall (CIFAR10, ''~/.flower/data/cifar-100'', True) [3, 7] 2 ()]"
proof -
  have a: "args_num_partitions example_args = 2" "args_alpha example_args = ()"
    by (simp_all add: example_args_def)
  have e: "convert_pytorch_dataset_to_xy example_ext d = d" "np_empty_0 example_ext = []"
    "create_lda_partitions example_ext xy [] 2 () = ([10, 20], [3, 7])" for d xy
    by (simp_all add: example_ext_def upt_rec)
  show ?thesis
    using C8_distribution_threaded [of example_args example_ext,
        unfolded Let_def a e example_datasets snd_conv] .
qed

text \<open>
  Claim C9 on the concrete run.
\<close>

theorem C9_witness:
  "train_dataset example_ext example_args = test_dataset example_ext example_args
   \<and> filter is_DatasetCall (generate example_ext example_args) =
       [DatasetCall CIFAR10 ''~/.flower/data/cifar-100'' True True,
        DatasetCall CIFAR10 ''~/.flower/data/cifar-100'' True True]
   \<and> filter is_ConvertCall (generate example_ext example_args) =
       [ConvertCall (CIFAR10, ''~/.flower/data/cifar-100'', True),
        ConvertCall (CIFAR10, ''~/.flower/data/cifar-100'', True)]"
proof -
  have a: "args_num_classes example_args = 100"
    by (simp add: example_args_def)
  have e: "torchvision_dataset example_ext c r t d = (c, r, t)" for c r t d
    by (simp add: example_ext_def)
  note t = C9_both_datasets_from_train_split [of example_args example_ext,
        unfolded Let_def a example_dataset_root e]
  then show ?thesis by simp
qed

text \<open>
  Claim C10 on the concrete command line, where \<open>--num_classes\<close> is 100.
\<close>

theorem C10_witness:
  "opt_num_classes example_argv = Some 100
   \<and> (100::int) \<in> {10, 100}
   \<and> snd (main example_ext example_argv) = Inr ()
   \<and> filter is_DatasetCall (fst (main example_ext example_argv)) =
       [DatasetCall CIFAR10 ''~/.flower/data/cifar-100'' True True,
        DatasetCall CIFAR10 ''~/.flower/data/cifar-100'' True True]
   \<and> filter is_ConvertCall (fst (main example_ext example_argv)) =
       [ConvertCall (CIFAR10, ''~/.flower/data/cifar-100'', True),
        ConvertCall (CIFAR10, ''~/.flower/data/cifar-100'', True)]
   \<and> filter is_PartitionCall (fst (main example_ext example_argv)) =
       [PartitionCall (CIFAR10, ''~/.flower/data/cifar-100'', True) [] 2 (),
        PartitionCall (CIFAR10, ''~/.flower/data/cifar-100'', True) [3, 7] 2 ()]
   \<and> DatasetCall CIFAR100 ''~/.flower/data/cifar-100'' True True
       \<notin> set (fst (main example_ext example_argv))"
proof -
  have h1: "opt_num_classes example_argv = Some 100" by (simp add: example_argv_def)
  have h2: "(100::int) \<in> {10, 100}" by simp
  have v: "opt_num_partitions example_argv = Some 2" "opt_alpha example_argv = None"
    by (simp_all add: example_argv_def)
  have e: "torchvision_dataset example_ext c r t dl = (c, r, t)"
    "convert_pytorch_dataset_to_xy example_ext d = d" "np_empty_0 example_ext = []"
    "float_0_1 example_ext = ()"
    "create_lda_partitions example_ext xy [] 2 () = ([10, 20], [3, 7])" for c r t dl d xy
    by (simp_all add: example_ext_def upt_rec)
  note t = C10_always_CIFAR10 [OF h1 h2, of example_ext,
      unfolded Let_def example_dataset_root v option.case e snd_conv]
  with h1 h2 show ?thesis by blast
qed

end
